theory Spec2Isabelle
  imports Main "HOL-Library.Multiset"
begin

section \<open>Domain model (governance/types.go, in src/unnamed/part_004)\<close>

text \<open>
  Go structs are records. \<open>Effect\<close> and \<open>StepOutcome\<close> are Go integer types used only
  through their named constants; they are datatypes with one constructor per constant.
  Field names are the source's; where two structs share a field name (\<open>ID\<close>, \<open>Name\<close>, \<open>PolicyName\<close>,
  \<open>Reason\<close>, ...) the field is written with its record as qualifier, as in
  \<open>Principal.ID\<close> and \<open>Resource.ID\<close>.

  A Go \<open>map[string]string\<close> is a reference: copying a \<open>Resource\<close> copies the reference,
  not the entries. The field \<open>Tags\<close> therefore holds an optional address (\<open>None\<close> is the
  nil map) and the entries live in a store of tag maps that every function reading tags
  receives as its first argument.
\<close>

datatype Effect = EffectAllow | EffectDeny

fun Effect_String :: "Effect \<Rightarrow> string" where
  "Effect_String e = (if e = EffectAllow then ''Allow'' else ''Deny'')"

datatype StepOutcome = StepAllow | StepDeny | StepAbstain

fun StepOutcome_String :: "StepOutcome \<Rightarrow> string" where
  "StepOutcome_String StepAllow = ''Allow''"
| "StepOutcome_String StepDeny = ''Deny''"
| "StepOutcome_String StepAbstain = ''Abstain''"

type_synonym tagmap = "string \<rightharpoonup> string"
type_synonym mapref = "nat option"
type_synonym heap = "nat \<Rightarrow> tagmap"

record Principal =
  ID :: string
  Role :: string
  Department :: string

record Resource =
  ID :: string
  Type :: string
  Classification :: string
  Tags :: mapref

record Action =
  Verb :: string

record RequestContext =
  Principal :: Principal
  Resource :: Resource
  Action :: Action
  Environment :: string
  MFAVerified :: bool

record PolicyDecision =
  Effect :: Effect
  PolicyName :: string
  Reason :: string

record PolicyStep =
  PolicyName :: string
  Outcome :: StepOutcome
  Reason :: string

text \<open>
  A Go slice that is tested against nil or serialised distinguishes the nil slice from
  the empty one; \<open>None\<close> is the nil slice. \<open>len\<close>, \<open>range\<close> and \<open>append\<close> treat both
  alike.
\<close>

type_synonym 'a slice = "'a list option"

fun elems :: "'a slice \<Rightarrow> 'a list" where
  "elems None = []"
| "elems (Some xs) = xs"

definition len :: "'a slice \<Rightarrow> nat" where
  "len s = length (elems s)"

definition append_slice :: "'a slice \<Rightarrow> 'a \<Rightarrow> 'a slice" where
  "append_slice s x = Some (elems s @ [x])"

record EvaluationTrace =
  Context :: RequestContext
  Steps :: "PolicyStep slice"

definition EvaluatedCount :: "EvaluationTrace \<Rightarrow> nat" where
  "EvaluatedCount t = length (filter (\<lambda>s. Outcome s \<noteq> StepAbstain) (elems (Steps t)))"

definition AbstainCount :: "EvaluationTrace \<Rightarrow> nat" where
  "AbstainCount t = len (Steps t) - EvaluatedCount t"

record EvaluationResult =
  Decision :: PolicyDecision
  Trace :: EvaluationTrace

record ComplianceReport =
  ResourceID :: string
  Violations :: "string slice"

definition Compliant :: "ComplianceReport \<Rightarrow> bool" where
  "Compliant r = (len (Violations r) = 0)"

text \<open>Reading a key of a tag map through its reference; a nil map has no entries.\<close>

definition lookup_tag :: "heap \<Rightarrow> mapref \<Rightarrow> string \<Rightarrow> string option" where
  "lookup_tag h m k = (case m of None \<Rightarrow> None | Some a \<Rightarrow> h a k)"

section \<open>Access-control engine (src/unnamed/part_003)\<close>

text \<open>
  \<open>PolicyFn\<close> is \<open>func(RequestContext) *PolicyDecision\<close>: \<open>None\<close> is the nil pointer
  (abstain). The function may read the tag map of the context's resource, hence the
  store argument. \<open>Priority\<close> is only ever compared, so it is an \<open>int\<close>.
\<close>

type_synonym PolicyFn = "heap \<Rightarrow> RequestContext \<Rightarrow> PolicyDecision option"

record Policy =
  Name :: string
  Version :: string
  Author :: string
  Description :: string
  Priority :: int
  Evaluate :: PolicyFn

record PolicyEngine =
  policies :: "Policy list"

text \<open>
  \<open>sort.SliceStable\<close> is Go's standard library: it sorts by the given \<open>less\<close> and keeps
  elements that \<open>less\<close> does not order in their original order. It is modelled as a
  stable insertion sort: every element is put behind exactly those elements of the
  sorted rest that \<open>less\<close> places before it.
\<close>

fun insert_stable :: "('a \<Rightarrow> 'a \<Rightarrow> bool) \<Rightarrow> 'a \<Rightarrow> 'a list \<Rightarrow> 'a list" where
  "insert_stable lt x [] = [x]"
| "insert_stable lt x (y # ys) =
     (if lt y x then y # insert_stable lt x ys else x # y # ys)"

fun SliceStable :: "'a list \<Rightarrow> ('a \<Rightarrow> 'a \<Rightarrow> bool) \<Rightarrow> 'a list" where
  "SliceStable [] lt = []"
| "SliceStable (x # xs) lt = insert_stable lt x (SliceStable xs lt)"

definition RegisterPolicy :: "PolicyEngine \<Rightarrow> Policy \<Rightarrow> PolicyEngine" where
  "RegisterPolicy e p =
     e\<lparr>policies := SliceStable (policies e @ [p]) (\<lambda>a b. Priority a > Priority b)\<rparr>"

definition PolicyCount :: "PolicyEngine \<Rightarrow> nat" where
  "PolicyCount e = length (policies e)"

text \<open>The zero value \<open>&PolicyEngine{}\<close>.\<close>

definition empty_engine :: PolicyEngine where
  "empty_engine = \<lparr>policies = []\<rparr>"

definition defaultDeny :: PolicyDecision where
  "defaultDeny = \<lparr>Effect = EffectDeny, PolicyDecision.PolicyName = ''default'',
     PolicyDecision.Reason = ''No policy explicitly granted access.''\<rparr>"

text \<open>
  The body of the \<open>for _, policy := range e.policies\<close> loop of \<open>Evaluate\<close>, with the two
  variables it updates (\<open>trace\<close>, \<open>firstAllow\<close>) as arguments; the \<open>return\<close> inside the
  loop is the branch that does not recurse, the code after the loop is the empty-list
  equation.
\<close>

fun Evaluate_loop ::
  "heap \<Rightarrow> RequestContext \<Rightarrow> Policy list \<Rightarrow> EvaluationTrace \<Rightarrow> PolicyDecision option
     \<Rightarrow> EvaluationResult" where
  "Evaluate_loop h ctx [] trace firstAllow =
     (case firstAllow of
        Some d \<Rightarrow> \<lparr>Decision = d, Trace = trace\<rparr>
      | None \<Rightarrow> \<lparr>Decision = defaultDeny, Trace = trace\<rparr>)"
| "Evaluate_loop h ctx (policy # rest) trace firstAllow =
     (case Evaluate policy h ctx of
        None \<Rightarrow>
          Evaluate_loop h ctx rest
            (trace\<lparr>Steps := append_slice (Steps trace)
               \<lparr>PolicyStep.PolicyName = Name policy, Outcome = StepAbstain,
                PolicyStep.Reason = ''''\<rparr>\<rparr>)
            firstAllow
      | Some decision \<Rightarrow>
          if Effect decision = EffectDeny then
            \<lparr>Decision = decision,
             Trace = trace\<lparr>Steps := append_slice (Steps trace)
               \<lparr>PolicyStep.PolicyName = Name policy, Outcome = StepDeny,
                PolicyStep.Reason = PolicyDecision.Reason decision\<rparr>\<rparr>\<rparr>
          else
            Evaluate_loop h ctx rest
              (trace\<lparr>Steps := append_slice (Steps trace)
                 \<lparr>PolicyStep.PolicyName = Name policy, Outcome = StepAllow,
                  PolicyStep.Reason = PolicyDecision.Reason decision\<rparr>\<rparr>)
              (case firstAllow of None \<Rightarrow> Some decision | Some d \<Rightarrow> Some d))"

definition PolicyEngine_Evaluate :: "heap \<Rightarrow> PolicyEngine \<Rightarrow> RequestContext \<Rightarrow> EvaluationResult" where
  "PolicyEngine_Evaluate h e ctx =
     Evaluate_loop h ctx (policies e) \<lparr>Context = ctx, Steps = Some []\<rparr> None"

section \<open>Built-in policies (src/unnamed/part_004)\<close>

text \<open>A policy literal that leaves \<open>Priority\<close> out has the zero value 0.\<close>

definition AdminFullAccess :: Policy where
  "AdminFullAccess = \<lparr>
     Name = ''AdminFullAccess'', Version = ''1.0'', Author = ''governance-team'',
     Description = ''Grants unrestricted access to all principals with the admin role.'',
     Priority = 0,
     Evaluate = (\<lambda>h ctx.
       if Role (Principal ctx) = ''admin'' then
         Some \<lparr>Effect = EffectAllow, PolicyDecision.PolicyName = ''AdminFullAccess'',
               PolicyDecision.Reason = ''Admin role has unrestricted access.''\<rparr>
       else None)\<rparr>"

definition MFARequiredForRestricted :: Policy where
  "MFARequiredForRestricted = \<lparr>
     Name = ''MFARequiredForRestricted'', Version = ''1.0'', Author = ''governance-team'',
     Description = ''Denies access to restricted resources when MFA has not been verified.'',
     Priority = 0,
     Evaluate = (\<lambda>h ctx.
       if Classification (Resource ctx) = ''restricted'' \<and> \<not> MFAVerified ctx then
         Some \<lparr>Effect = EffectDeny, PolicyDecision.PolicyName = ''MFARequiredForRestricted'',
               PolicyDecision.Reason = ''MFA required to access restricted resources.''\<rparr>
       else None)\<rparr>"

definition ProductionImmutability :: Policy where
  "ProductionImmutability = \<lparr>
     Name = ''ProductionImmutability'', Version = ''1.0'', Author = ''governance-team'',
     Description = ''Prevents non-admin principals from writing or deleting in production.'',
     Priority = 0,
     Evaluate = (\<lambda>h ctx.
       if Environment ctx = ''production'' \<and> Role (Principal ctx) \<noteq> ''admin'' \<and>
          (Verb (Action ctx) = ''write'' \<or> Verb (Action ctx) = ''delete'') then
         Some \<lparr>Effect = EffectDeny, PolicyDecision.PolicyName = ''ProductionImmutability'',
               PolicyDecision.Reason =
                 ''Write/delete operations require admin role in production.''\<rparr>
       else None)\<rparr>"

definition AnalystReadOnly :: Policy where
  "AnalystReadOnly = \<lparr>
     Name = ''AnalystReadOnly'', Version = ''1.0'', Author = ''governance-team'',
     Description = ''Restricts analysts to read-only access on non-sensitive resources.'',
     Priority = 0,
     Evaluate = (\<lambda>h ctx.
       if Role (Principal ctx) \<noteq> ''analyst'' then None
       else if Verb (Action ctx) \<noteq> ''read'' then
         Some \<lparr>Effect = EffectDeny, PolicyDecision.PolicyName = ''AnalystReadOnly'',
               PolicyDecision.Reason = ''Analysts are limited to read-only access.''\<rparr>
       else if Classification (Resource ctx) = ''restricted'' \<or>
               Classification (Resource ctx) = ''confidential'' then
         Some \<lparr>Effect = EffectDeny, PolicyDecision.PolicyName = ''AnalystReadOnly'',
               PolicyDecision.Reason =
                 ''Analysts cannot access confidential or restricted data.''\<rparr>
       else
         Some \<lparr>Effect = EffectAllow, PolicyDecision.PolicyName = ''AnalystReadOnly'',
               PolicyDecision.Reason =
                 ''Analyst read access on non-sensitive resource allowed.''\<rparr>)\<rparr>"

definition EngineerAccess :: Policy where
  "EngineerAccess = \<lparr>
     Name = ''EngineerAccess'', Version = ''1.0'', Author = ''governance-team'',
     Description = ''Grants engineers full access in dev/staging and read-only in production.'',
     Priority = 0,
     Evaluate = (\<lambda>h ctx.
       if Role (Principal ctx) \<noteq> ''engineer'' then None
       else if Classification (Resource ctx) = ''restricted'' then None
       else if Environment ctx = ''dev'' \<or> Environment ctx = ''staging'' then
         Some \<lparr>Effect = EffectAllow, PolicyDecision.PolicyName = ''EngineerAccess'',
               PolicyDecision.Reason =
                 ''Engineers have full access in non-production environments.''\<rparr>
       else if Environment ctx = ''production'' \<and> Verb (Action ctx) = ''read'' then
         Some \<lparr>Effect = EffectAllow, PolicyDecision.PolicyName = ''EngineerAccess'',
               PolicyDecision.Reason = ''Engineers can read production resources.''\<rparr>
       else None)\<rparr>"

definition DefaultPolicyEngine :: PolicyEngine where
  "DefaultPolicyEngine =
     RegisterPolicy (RegisterPolicy (RegisterPolicy (RegisterPolicy (RegisterPolicy
       empty_engine AdminFullAccess) MFARequiredForRestricted) ProductionImmutability)
       AnalystReadOnly) EngineerAccess"

section \<open>Policy combinators (src/unnamed/part_005)\<close>

definition policyNames :: "Policy list \<Rightarrow> string list" where
  "policyNames ps = map Name ps"

text \<open>\<open>strings.Join\<close> of the standard library.\<close>

fun Join :: "string list \<Rightarrow> string \<Rightarrow> string" where
  "Join [] sep = ''''"
| "Join [x] sep = x"
| "Join (x # y # ys) sep = x @ sep @ Join (y # ys) sep"

text \<open>
  The loop of \<open>AnyOf\<close> with its two variables \<open>firstDeny\<close> and \<open>firstDenyName\<close>; the code
  after the loop is the empty-list equation.
\<close>

fun AnyOf_loop ::
  "heap \<Rightarrow> RequestContext \<Rightarrow> string \<Rightarrow> Policy list \<Rightarrow> PolicyDecision option \<Rightarrow> string
     \<Rightarrow> PolicyDecision option" where
  "AnyOf_loop h ctx name [] firstDeny firstDenyName =
     (case firstDeny of
        Some fd \<Rightarrow>
          Some \<lparr>Effect = EffectDeny, PolicyDecision.PolicyName = name,
                PolicyDecision.Reason =
                  ''AnyOf denied by sub-policy '' @ firstDenyName @ '': '' @
                  PolicyDecision.Reason fd\<rparr>
      | None \<Rightarrow> None)"
| "AnyOf_loop h ctx name (p # rest) firstDeny firstDenyName =
     (case Evaluate p h ctx of
        None \<Rightarrow> AnyOf_loop h ctx name rest firstDeny firstDenyName
      | Some d \<Rightarrow>
          if Effect d = EffectAllow then
            Some \<lparr>Effect = EffectAllow, PolicyDecision.PolicyName = name,
                  PolicyDecision.Reason =
                    ''AnyOf allowed by sub-policy '' @ Name p @ '': '' @
                    PolicyDecision.Reason d\<rparr>
          else
            (case firstDeny of
               None \<Rightarrow> AnyOf_loop h ctx name rest (Some d) (Name p)
             | Some fd \<Rightarrow> AnyOf_loop h ctx name rest firstDeny firstDenyName))"

definition AnyOf :: "string \<Rightarrow> Policy list \<Rightarrow> Policy" where
  "AnyOf name ps = \<lparr>
     Name = name, Version = ''1.0'', Author = ''governance-team'',
     Description = ''AnyOf combinator over ['' @ Join (policyNames ps) '', '' @ '']'',
     Priority = 0,
     Evaluate = (\<lambda>h ctx. AnyOf_loop h ctx name ps None '''')\<rparr>"

fun NoneOf_loop ::
  "heap \<Rightarrow> RequestContext \<Rightarrow> string \<Rightarrow> Policy list \<Rightarrow> PolicyDecision option" where
  "NoneOf_loop h ctx name [] = None"
| "NoneOf_loop h ctx name (p # rest) =
     (case Evaluate p h ctx of
        None \<Rightarrow> NoneOf_loop h ctx name rest
      | Some d \<Rightarrow>
          if Effect d = EffectAllow then
            Some \<lparr>Effect = EffectDeny, PolicyDecision.PolicyName = name,
                  PolicyDecision.Reason =
                    ''NoneOf blocked by sub-policy '' @ Name p @ '': '' @
                    PolicyDecision.Reason d\<rparr>
          else NoneOf_loop h ctx name rest)"

definition NoneOf :: "string \<Rightarrow> Policy list \<Rightarrow> Policy" where
  "NoneOf name ps = \<lparr>
     Name = name, Version = ''1.0'', Author = ''governance-team'',
     Description = ''NoneOf combinator over ['' @ Join (policyNames ps) '', '' @ '']'',
     Priority = 0,
     Evaluate = (\<lambda>h ctx. NoneOf_loop h ctx name ps)\<rparr>"

section \<open>Compliance checker (src/unnamed/part_007, governance/rulesets.go)\<close>

text \<open>A check reads the tags of the resource it is given, hence the store argument.\<close>

record ComplianceRule =
  Name :: string
  Version :: string
  Author :: string
  Description :: string
  Check :: "heap \<Rightarrow> Resource \<Rightarrow> bool"

record ComplianceChecker =
  rules :: "ComplianceRule list"

record RuleSet =
  Name :: string
  Rules :: "ComplianceRule list"

definition empty_checker :: ComplianceChecker where
  "empty_checker = \<lparr>rules = []\<rparr>"

definition AddRule :: "ComplianceChecker \<Rightarrow> ComplianceRule \<Rightarrow> ComplianceChecker" where
  "AddRule c rule = c\<lparr>rules := rules c @ [rule]\<rparr>"

fun AddRules :: "ComplianceChecker \<Rightarrow> ComplianceRule list \<Rightarrow> ComplianceChecker" where
  "AddRules c [] = c"
| "AddRules c (rule # rest) = AddRules (c\<lparr>rules := rules c @ [rule]\<rparr>) rest"

text \<open>
  \<open>AddRuleSet\<close> receives the rule set by value and ranges over \<open>rs.Rules\<close>; the state it
  works on is the checker and the caller's rule set, and both are returned as they are
  after the call. The third argument is the part of \<open>rs.Rules\<close> still to be visited.
\<close>

fun AddRuleSet_loop ::
  "ComplianceChecker \<Rightarrow> RuleSet \<Rightarrow> ComplianceRule list \<Rightarrow> ComplianceChecker \<times> RuleSet" where
  "AddRuleSet_loop c rs [] = (c, rs)"
| "AddRuleSet_loop c rs (rule # rest) =
     AddRuleSet_loop
       (c\<lparr>rules := rules c @
          [\<lparr>ComplianceRule.Name = RuleSet.Name rs @ ''/'' @ ComplianceRule.Name rule,
            ComplianceRule.Version = ComplianceRule.Version rule,
            ComplianceRule.Author = ComplianceRule.Author rule,
            ComplianceRule.Description = ComplianceRule.Description rule,
            Check = Check rule\<rparr>]\<rparr>)
       rs rest"

definition AddRuleSet :: "ComplianceChecker \<Rightarrow> RuleSet \<Rightarrow> ComplianceChecker \<times> RuleSet" where
  "AddRuleSet c rs = AddRuleSet_loop c rs (Rules rs)"

definition RuleCount :: "ComplianceChecker \<Rightarrow> nat" where
  "RuleCount c = length (rules c)"

text \<open>\<open>fmt.Sprintf("[%s] %s", rule.Name, rule.Description)\<close>.\<close>

definition violation :: "ComplianceRule \<Rightarrow> string" where
  "violation rule =
     ''['' @ ComplianceRule.Name rule @ ''] '' @ ComplianceRule.Description rule"

fun ComplianceChecker_Evaluate_loop ::
  "heap \<Rightarrow> Resource \<Rightarrow> ComplianceRule list \<Rightarrow> ComplianceReport \<Rightarrow> ComplianceReport" where
  "ComplianceChecker_Evaluate_loop h resource [] report = report"
| "ComplianceChecker_Evaluate_loop h resource (rule # rest) report =
     ComplianceChecker_Evaluate_loop h resource rest
       (if \<not> Check rule h resource
        then report\<lparr>Violations := append_slice (Violations report) (violation rule)\<rparr>
        else report)"

definition ComplianceChecker_Evaluate ::
  "heap \<Rightarrow> ComplianceChecker \<Rightarrow> Resource \<Rightarrow> ComplianceReport" where
  "ComplianceChecker_Evaluate h c resource =
     ComplianceChecker_Evaluate_loop h resource (rules c)
       \<lparr>ResourceID = Resource.ID resource, Violations = Some []\<rparr>"

definition SOC2RuleSet :: RuleSet where
  "SOC2RuleSet = \<lparr>
     RuleSet.Name = ''SOC2'',
     Rules = [
       \<lparr>ComplianceRule.Name = ''RequiresOwnerTag'', ComplianceRule.Version = ''1.0'',
        ComplianceRule.Author = ''governance-team'',
        ComplianceRule.Description = ''Resource must have an 'owner' tag.'',
        Check = (\<lambda>h r. lookup_tag h (Tags r) ''owner'' \<noteq> None)\<rparr>,
       \<lparr>ComplianceRule.Name = ''NoUnclassifiedResources'', ComplianceRule.Version = ''1.0'',
        ComplianceRule.Author = ''governance-team'',
        ComplianceRule.Description = ''Every resource must have a non-empty classification.'',
        Check = (\<lambda>h r. Classification r \<noteq> '''')\<rparr>]\<rparr>"

text \<open>\<open>DefaultComplianceChecker\<close> (src/unnamed/part_000): four \<open>AddRule\<close> calls on a new checker.\<close>

definition DefaultComplianceChecker :: ComplianceChecker where
  "DefaultComplianceChecker =
     AddRule (AddRule (AddRule (AddRule empty_checker
       \<lparr>ComplianceRule.Name = ''RequiresOwnerTag'', ComplianceRule.Version = ''1.0'',
        ComplianceRule.Author = ''governance-team'',
        ComplianceRule.Description = ''Resource must have an 'owner' tag.'',
        Check = (\<lambda>h r. lookup_tag h (Tags r) ''owner'' \<noteq> None)\<rparr>)
       \<lparr>ComplianceRule.Name = ''SecretsNotPublic'', ComplianceRule.Version = ''1.0'',
        ComplianceRule.Author = ''governance-team'',
        ComplianceRule.Description =
          ''Resources of type 'secret' must not be classified as 'public'.'',
        Check = (\<lambda>h r. \<not> (Type r = ''secret'' \<and> Classification r = ''public''))\<rparr>)
       \<lparr>ComplianceRule.Name = ''DatabasesMustBeRestricted'', ComplianceRule.Version = ''1.0'',
        ComplianceRule.Author = ''governance-team'',
        ComplianceRule.Description =
          ''Database resources must be classified as 'restricted' or 'confidential'.'',
        Check = (\<lambda>h r. if Type r \<noteq> ''database'' then True
                        else Classification r = ''restricted'' \<or>
                             Classification r = ''confidential'')\<rparr>)
       \<lparr>ComplianceRule.Name = ''NoUnclassifiedResources'', ComplianceRule.Version = ''1.0'',
        ComplianceRule.Author = ''governance-team'',
        ComplianceRule.Description = ''Every resource must have a non-empty classification.'',
        Check = (\<lambda>h r. Classification r \<noteq> '''')\<rparr>"

section \<open>Serialisation (governance/json.go)\<close>

text \<open>
  \<open>json.Marshal\<close> is Go's standard library. It is modelled up to the JSON value it
  renders: a struct is an object with one member per field, named by the field's
  \<open>json\<close> tag, in declaration order; a string is a JSON string, a bool a JSON boolean;
  a nil slice is \<open>null\<close> and any other slice an array; a type with a \<open>MarshalJSON\<close>
  method is rendered by that method.
\<close>

datatype json = JNull | JBool bool | JString string | JArray "json list"
  | JObject "(string \<times> json) list"

definition Marshal_slice :: "('a \<Rightarrow> json) \<Rightarrow> 'a slice \<Rightarrow> json" where
  "Marshal_slice f s = (case s of None \<Rightarrow> JNull | Some xs \<Rightarrow> JArray (map f xs))"

definition Effect_MarshalJSON :: "Effect \<Rightarrow> json" where
  "Effect_MarshalJSON e = JString (Effect_String e)"

definition StepOutcome_MarshalJSON :: "StepOutcome \<Rightarrow> json" where
  "StepOutcome_MarshalJSON out = JString (StepOutcome_String out)"

definition Marshal_PolicyDecision :: "PolicyDecision \<Rightarrow> json" where
  "Marshal_PolicyDecision d = JObject [
     (''effect'', Effect_MarshalJSON (Effect d)),
     (''policy_name'', JString (PolicyDecision.PolicyName d)),
     (''reason'', JString (PolicyDecision.Reason d))]"

definition Marshal_PolicyStep :: "PolicyStep \<Rightarrow> json" where
  "Marshal_PolicyStep s = JObject [
     (''policy'', JString (PolicyStep.PolicyName s)),
     (''outcome'', StepOutcome_MarshalJSON (Outcome s)),
     (''reason'', JString (PolicyStep.Reason s))]"

definition EvaluationResult_MarshalJSON :: "EvaluationResult \<Rightarrow> json" where
  "EvaluationResult_MarshalJSON r =
     (let steps = (case Steps (Trace r) of None \<Rightarrow> Some [] | Some xs \<Rightarrow> Some xs)
      in JObject [
        (''decision'', Marshal_PolicyDecision (Decision r)),
        (''trace'', JObject [
           (''principal'', JString (Principal.ID (Principal (Context (Trace r))))),
           (''resource'', JString (Resource.ID (Resource (Context (Trace r))))),
           (''action'', JString (Verb (Action (Context (Trace r))))),
           (''environment'', JString (Environment (Context (Trace r)))),
           (''steps'', Marshal_slice Marshal_PolicyStep steps)])])"

definition ComplianceReport_MarshalJSON :: "ComplianceReport \<Rightarrow> json" where
  "ComplianceReport_MarshalJSON r =
     (let violations = (case Violations r of None \<Rightarrow> Some [] | Some xs \<Rightarrow> Some xs)
      in JObject [
        (''resource_id'', JString (ResourceID r)),
        (''compliant'', JBool (Compliant r)),
        (''violations'', Marshal_slice JString violations)])"

text \<open>Reading a JSON document: the member of an object under a key, and its keys.\<close>

fun member :: "json \<Rightarrow> string \<Rightarrow> json option" where
  "member (JObject kvs) k = map_of kvs k"
| "member j k = None"

fun keys :: "json \<Rightarrow> string list" where
  "keys (JObject kvs) = map fst kvs"
| "keys j = []"

section \<open>The host's side of an evaluation\<close>

text \<open>
  The Go statement \<open>ctx.Resource.Tags[k] = v\<close> executed by the caller on its own
  context: it writes through the map reference and panics (\<open>None\<close>) on a nil map.
\<close>

definition set_tag :: "heap \<Rightarrow> RequestContext \<Rightarrow> string \<Rightarrow> string \<Rightarrow> heap option" where
  "set_tag h ctx k v =
     (case Tags (Resource ctx) of
        None \<Rightarrow> None
      | Some a \<Rightarrow> Some (h(a := (h a)(k \<mapsto> v))))"

section \<open>Vocabulary of the statements\<close>

text \<open>
  What one policy says about a request: it denies, it allows, and the trace row the
  engine writes for it (an abstention has the empty reason).
\<close>

definition denies :: "heap \<Rightarrow> RequestContext \<Rightarrow> Policy \<Rightarrow> bool" where
  "denies h ctx p = (case Evaluate p h ctx of None \<Rightarrow> False | Some d \<Rightarrow> Effect d = EffectDeny)"

definition allows :: "heap \<Rightarrow> RequestContext \<Rightarrow> Policy \<Rightarrow> bool" where
  "allows h ctx p = (case Evaluate p h ctx of None \<Rightarrow> False | Some d \<Rightarrow> Effect d = EffectAllow)"

definition step_of :: "heap \<Rightarrow> RequestContext \<Rightarrow> Policy \<Rightarrow> PolicyStep" where
  "step_of h ctx p =
     (case Evaluate p h ctx of
        None \<Rightarrow> \<lparr>PolicyStep.PolicyName = Policy.Name p, Outcome = StepAbstain,
                 PolicyStep.Reason = ''''\<rparr>
      | Some d \<Rightarrow> \<lparr>PolicyStep.PolicyName = Policy.Name p,
                   Outcome = (if Effect d = EffectDeny then StepDeny else StepAllow),
                   PolicyStep.Reason = PolicyDecision.Reason d\<rparr>)"

text \<open>The first Allow decision among the decisions the policies render, in order.\<close>

definition first_allow :: "heap \<Rightarrow> RequestContext \<Rightarrow> Policy list \<Rightarrow> PolicyDecision option" where
  "first_allow h ctx ps =
     List.find (\<lambda>d. Effect d = EffectAllow) (List.map_filter (\<lambda>p. Evaluate p h ctx) ps)"

text \<open>Policies and requests used as concrete inputs.\<close>

definition no_tags :: heap where
  "no_tags = (\<lambda>a. Map.empty)"

definition engineer_request :: RequestContext where
  "engineer_request =
     \<lparr>Principal = \<lparr>Principal.ID = ''bob'', Role = ''engineer'', Department = ''Backend''\<rparr>,
      Resource = \<lparr>Resource.ID = ''r1'', Type = ''database'', Classification = ''restricted'',
                  Tags = Some 0\<rparr>,
      Action = \<lparr>Verb = ''read''\<rparr>, Environment = ''staging'', MFAVerified = False\<rparr>"

definition admin_request :: RequestContext where
  "admin_request =
     \<lparr>Principal = \<lparr>Principal.ID = ''alice'', Role = ''admin'', Department = ''IT''\<rparr>,
      Resource = \<lparr>Resource.ID = ''r1'', Type = ''database'', Classification = ''restricted'',
                  Tags = Some 0\<rparr>,
      Action = \<lparr>Verb = ''delete''\<rparr>, Environment = ''production'', MFAVerified = True\<rparr>"

definition always :: "string \<Rightarrow> int \<Rightarrow> PolicyDecision option \<Rightarrow> Policy" where
  "always name prio d =
     \<lparr>Policy.Name = name, Policy.Version = ''1.0'', Policy.Author = ''test'',
      Policy.Description = '''', Priority = prio, Evaluate = (\<lambda>h ctx. d)\<rparr>"

definition allow_decision :: "string \<Rightarrow> PolicyDecision" where
  "allow_decision name =
     \<lparr>Effect = EffectAllow, PolicyDecision.PolicyName = name,
      PolicyDecision.Reason = name @ '' allow''\<rparr>"

definition deny_decision :: "string \<Rightarrow> PolicyDecision" where
  "deny_decision name =
     \<lparr>Effect = EffectDeny, PolicyDecision.PolicyName = name,
      PolicyDecision.Reason = name @ '' deny''\<rparr>"

section \<open>Ordering of the registered policies\<close>

lemma sorted_insert_stable:
  fixes f :: "'a \<Rightarrow> int"
  assumes "sorted_wrt (\<lambda>a b. f a \<ge> f b) ys"
  shows "sorted_wrt (\<lambda>a b. f a \<ge> f b) (insert_stable (\<lambda>a b. f a > f b) x ys)"
    and "set (insert_stable (\<lambda>a b. f a > f b) x ys) = insert x (set ys)"
  using assms by (induction ys) auto

lemma sorted_SliceStable:
  fixes f :: "'a \<Rightarrow> int"
  shows "sorted_wrt (\<lambda>a b. f a \<ge> f b) (SliceStable xs (\<lambda>a b. f a > f b))"
  by (induction xs) (simp_all add: sorted_insert_stable(1))

lemma filter_insert_stable:
  fixes f :: "'a \<Rightarrow> int"
  shows "filter (\<lambda>y. f y = k) (insert_stable (\<lambda>a b. f a > f b) x ys) =
         (if f x = k then x # filter (\<lambda>y. f y = k) ys else filter (\<lambda>y. f y = k) ys)"
  by (induction ys) auto

lemma filter_SliceStable:
  fixes f :: "'a \<Rightarrow> int"
  shows "filter (\<lambda>y. f y = k) (SliceStable xs (\<lambda>a b. f a > f b)) = filter (\<lambda>y. f y = k) xs"
  by (induction xs) (simp_all add: filter_insert_stable)

text \<open>
  The two properties determine the result: a list that is sorted by descending key and
  keeps the elements of every key in their original order is the list \<open>SliceStable\<close>
  returns. Whatever algorithm the library runs, a stable sort returns this list.
\<close>

lemma insert_stable_insort_key:
  fixes f :: "'a \<Rightarrow> int"
  shows "insert_stable (\<lambda>a b. f a > f b) x ys = insort_key (\<lambda>a. - f a) x ys"
  by (induction ys) auto

lemma SliceStable_sort_key:
  fixes f :: "'a \<Rightarrow> int"
  shows "SliceStable xs (\<lambda>a b. f a > f b) = sort_key (\<lambda>a. - f a) xs"
  by (induction xs) (simp_all add: insert_stable_insort_key)

lemma sorted_desc_map:
  fixes f :: "'a \<Rightarrow> int"
  shows "sorted (map (\<lambda>a. - f a) ys) = sorted_wrt (\<lambda>a b. f a \<ge> f b) ys"
  by (induction ys) auto

lemma SliceStable_unique:
  fixes f :: "'a \<Rightarrow> int"
  assumes "sorted_wrt (\<lambda>a b. f a \<ge> f b) ys"
    and "\<And>k. filter (\<lambda>y. f y = k) ys = filter (\<lambda>y. f y = k) xs"
  shows "SliceStable xs (\<lambda>a b. f a > f b) = ys"
  unfolding SliceStable_sort_key
proof (rule properties_for_sort_key)
  show "mset ys = mset xs"
  proof (rule multiset_eqI)
    fix x
    have "count (mset ys) x = count (mset (filter (\<lambda>y. f y = f x) ys)) x"
      by simp
    also have "\<dots> = count (mset (filter (\<lambda>y. f y = f x) xs)) x"
      by (simp only: assms(2))
    also have "\<dots> = count (mset xs) x"
      by simp
    finally show "count (mset ys) x = count (mset xs) x" .
  qed
  show "sorted (map (\<lambda>a. - f a) ys)"
    using assms(1) by (simp add: sorted_desc_map)
  show "filter (\<lambda>x. - f k = - f x) ys = filter (\<lambda>x. - f k = - f x) xs" for k
    using assms(2) [of "f k"] by (simp add: eq_commute)
qed

lemma policies_RegisterPolicy:
  "policies (RegisterPolicy e p) = SliceStable (policies e @ [p]) (\<lambda>a b. Priority a > Priority b)"
  by (simp add: RegisterPolicy_def)

lemma sorted_registered:
  "sorted_wrt (\<lambda>a b. Priority a \<ge> Priority b) (policies (foldl RegisterPolicy empty_engine ps))"
proof (cases ps rule: rev_cases)
  case Nil
  then show ?thesis by (simp add: empty_engine_def)
next
  case (snoc qs q)
  then show ?thesis by (simp add: policies_RegisterPolicy sorted_SliceStable)
qed

lemma stable_registered:
  "filter (\<lambda>p. Priority p = k) (policies (foldl RegisterPolicy empty_engine ps)) =
   filter (\<lambda>p. Priority p = k) ps"
proof (induction ps rule: rev_induct)
  case Nil
  show ?case by (simp add: empty_engine_def)
next
  case (snoc q qs)
  then show ?case by (simp add: policies_RegisterPolicy filter_SliceStable)
qed

lemma DefaultPolicyEngine_policies:
  "policies DefaultPolicyEngine =
     [AdminFullAccess, MFARequiredForRestricted, ProductionImmutability, AnalystReadOnly,
      EngineerAccess]"
  by (simp add: DefaultPolicyEngine_def RegisterPolicy_def empty_engine_def
      AdminFullAccess_def MFARequiredForRestricted_def ProductionImmutability_def
      AnalystReadOnly_def EngineerAccess_def)

section \<open>The evaluation loop\<close>

lemma first_allow_Nil: "first_allow h ctx [] = None"
  by (simp add: first_allow_def)

lemma first_allow_Cons:
  "first_allow h ctx (p # ps) =
     (case Evaluate p h ctx of
        None \<Rightarrow> first_allow h ctx ps
      | Some d \<Rightarrow> if Effect d = EffectAllow then Some d else first_allow h ctx ps)"
  by (simp add: first_allow_def split: option.splits)

lemma Effect_not_Deny: "(e \<noteq> EffectDeny) = (e = EffectAllow)"
  by (cases e) simp_all

lemma Evaluate_loop_no_deny:
  "\<forall>q\<in>set ps. \<not> denies h ctx q \<Longrightarrow>
   Evaluate_loop h ctx ps \<lparr>Context = c, Steps = Some ss\<rparr> fa =
     \<lparr>Decision = (case fa of
                    Some d \<Rightarrow> d
                  | None \<Rightarrow> (case first_allow h ctx ps of Some d \<Rightarrow> d | None \<Rightarrow> defaultDeny)),
      Trace = \<lparr>Context = c, Steps = Some (ss @ map (step_of h ctx) ps)\<rparr>\<rparr>"
proof (induction ps arbitrary: ss fa)
  case Nil
  show ?case
    by (simp add: first_allow_Nil split: option.splits)
next
  case (Cons p ps)
  from Cons.prems have rest: "\<forall>q\<in>set ps. \<not> denies h ctx q" and here: "\<not> denies h ctx p"
    by simp_all
  show ?case
  proof (cases "Evaluate p h ctx")
    case None
    then show ?thesis
      by (cases fa) (simp_all add: Cons.IH [OF rest] first_allow_Cons step_of_def
          append_slice_def)
  next
    case (Some d)
    with here have allow: "Effect d = EffectAllow"
      by (simp add: denies_def Effect_not_Deny)
    show ?thesis
      by (cases fa) (simp_all add: Some allow Cons.IH [OF rest] first_allow_Cons step_of_def
          append_slice_def)
  qed
qed

lemma Evaluate_loop_deny:
  "\<forall>q\<in>set pre. \<not> denies h ctx q \<Longrightarrow> Evaluate p h ctx = Some d \<Longrightarrow> Effect d = EffectDeny \<Longrightarrow>
   Evaluate_loop h ctx (pre @ p # post) \<lparr>Context = c, Steps = Some ss\<rparr> fa =
     \<lparr>Decision = d,
      Trace = \<lparr>Context = c, Steps = Some (ss @ map (step_of h ctx) pre @
        [\<lparr>PolicyStep.PolicyName = Policy.Name p, Outcome = StepDeny,
          PolicyStep.Reason = PolicyDecision.Reason d\<rparr>])\<rparr>\<rparr>"
proof (induction pre arbitrary: ss fa)
  case Nil
  then show ?case by (simp add: append_slice_def)
next
  case (Cons q pre)
  from Cons.prems have rest: "\<forall>q\<in>set pre. \<not> denies h ctx q" and here: "\<not> denies h ctx q"
    by simp_all
  note IH = Cons.IH [OF rest Cons.prems(2) Cons.prems(3)]
  show ?case
  proof (cases "Evaluate q h ctx")
    case None
    then show ?thesis
      by (simp add: IH step_of_def append_slice_def)
  next
    case (Some d')
    with here have allow: "Effect d' = EffectAllow"
      by (simp add: denies_def Effect_not_Deny)
    show ?thesis
      by (simp add: Some allow IH step_of_def append_slice_def)
  qed
qed

lemma Evaluate_no_deny:
  "\<forall>q\<in>set (policies e). \<not> denies h ctx q \<Longrightarrow>
   PolicyEngine_Evaluate h e ctx =
     \<lparr>Decision = (case first_allow h ctx (policies e) of Some d \<Rightarrow> d | None \<Rightarrow> defaultDeny),
      Trace = \<lparr>Context = ctx, Steps = Some (map (step_of h ctx) (policies e))\<rparr>\<rparr>"
  by (simp add: PolicyEngine_Evaluate_def Evaluate_loop_no_deny)

lemma Evaluate_deny:
  "policies e = pre @ p # post \<Longrightarrow> \<forall>q\<in>set pre. \<not> denies h ctx q \<Longrightarrow>
   Evaluate p h ctx = Some d \<Longrightarrow> Effect d = EffectDeny \<Longrightarrow>
   PolicyEngine_Evaluate h e ctx =
     \<lparr>Decision = d,
      Trace = \<lparr>Context = ctx, Steps = Some (map (step_of h ctx) pre @
        [\<lparr>PolicyStep.PolicyName = Policy.Name p, Outcome = StepDeny,
          PolicyStep.Reason = PolicyDecision.Reason d\<rparr>])\<rparr>\<rparr>"
  by (simp add: PolicyEngine_Evaluate_def Evaluate_loop_deny)

lemma step_of_not_Deny: "\<not> denies h ctx q \<Longrightarrow> Outcome (step_of h ctx q) \<noteq> StepDeny"
  by (cases "Evaluate q h ctx") (simp_all add: denies_def step_of_def)

lemma first_denier:
  assumes "\<exists>q\<in>set ps. denies h ctx q"
  shows "\<exists>pre p post d. ps = pre @ p # post \<and> (\<forall>q\<in>set pre. \<not> denies h ctx q) \<and>
           Evaluate p h ctx = Some d \<and> Effect d = EffectDeny"
proof -
  from split_list_first_prop [OF assms] obtain pre p post
    where split: "ps = pre @ p # post" and p: "denies h ctx p"
      and pre: "\<forall>q\<in>set pre. \<not> denies h ctx q"
    by blast
  from p obtain d where "Evaluate p h ctx = Some d" "Effect d = EffectDeny"
    by (cases "Evaluate p h ctx") (simp_all add: denies_def)
  with split pre show ?thesis by blast
qed

lemma Evaluate_Context: "Context (Trace (PolicyEngine_Evaluate h e ctx)) = ctx"
proof (cases "\<exists>q\<in>set (policies e). denies h ctx q")
  case False
  then show ?thesis by (simp add: Evaluate_no_deny)
next
  case True
  from first_denier [OF this] obtain pre p post d
    where "policies e = pre @ p # post" "\<forall>q\<in>set pre. \<not> denies h ctx q"
      "Evaluate p h ctx = Some d" "Effect d = EffectDeny"
    by blast
  then show ?thesis by (simp add: Evaluate_deny)
qed

section \<open>Claims about the access-control engine\<close>

text \<open>
  C1. \<open>Evaluate\<close> scans the engine's policy sequence in order. If \<open>p\<close> is the first policy
  that denies, with decision \<open>d\<close>, the result is \<open>d\<close> and the trace holds one row for every
  policy before \<open>p\<close> (Abstain with the empty reason, or Allow with the policy's reason)
  followed by the Deny row of \<open>p\<close> with the reason of \<open>d\<close>; the policies after \<open>p\<close> leave no
  row and have no influence on the result. If no policy denies, the trace holds one row
  per policy and the decision is the first Allow decision rendered, or, when there is
  none, the Deny named "default" with reason "No policy explicitly granted access.".
  An engine without policies returns that default Deny and an empty step sequence.
\<close>

theorem C1_Evaluate_deny_wins_first_allow_default_deny:
  "(\<forall>pre p post d.
      policies e = pre @ p # post \<and> (\<forall>q\<in>set pre. \<not> denies h ctx q) \<and>
      Evaluate p h ctx = Some d \<and> Effect d = EffectDeny \<longrightarrow>
      PolicyEngine_Evaluate h e ctx =
        \<lparr>Decision = d,
         Trace = \<lparr>Context = ctx,
                  Steps = Some (map (step_of h ctx) pre @
                    [\<lparr>PolicyStep.PolicyName = Policy.Name p, Outcome = StepDeny,
                      PolicyStep.Reason = PolicyDecision.Reason d\<rparr>])\<rparr>\<rparr>)
   \<and> ((\<forall>q\<in>set (policies e). \<not> denies h ctx q) \<longrightarrow>
      PolicyEngine_Evaluate h e ctx =
        \<lparr>Decision = (case first_allow h ctx (policies e) of
                       Some d \<Rightarrow> d
                     | None \<Rightarrow> \<lparr>Effect = EffectDeny, PolicyDecision.PolicyName = ''default'',
                         PolicyDecision.Reason = ''No policy explicitly granted access.''\<rparr>),
         Trace = \<lparr>Context = ctx, Steps = Some (map (step_of h ctx) (policies e))\<rparr>\<rparr>)
   \<and> (policies e = [] \<longrightarrow>
      PolicyEngine_Evaluate h e ctx =
        \<lparr>Decision = \<lparr>Effect = EffectDeny, PolicyDecision.PolicyName = ''default'',
                      PolicyDecision.Reason = ''No policy explicitly granted access.''\<rparr>,
         Trace = \<lparr>Context = ctx, Steps = Some []\<rparr>\<rparr>)"
proof (intro conjI allI impI)
  fix pre p post d
  assume "policies e = pre @ p # post \<and> (\<forall>q\<in>set pre. \<not> denies h ctx q) \<and>
      Evaluate p h ctx = Some d \<and> Effect d = EffectDeny"
  then show "PolicyEngine_Evaluate h e ctx =
        \<lparr>Decision = d,
         Trace = \<lparr>Context = ctx,
                  Steps = Some (map (step_of h ctx) pre @
                    [\<lparr>PolicyStep.PolicyName = Policy.Name p, Outcome = StepDeny,
                      PolicyStep.Reason = PolicyDecision.Reason d\<rparr>])\<rparr>\<rparr>"
    by (simp add: Evaluate_deny)
next
  assume "\<forall>q\<in>set (policies e). \<not> denies h ctx q"
  then show "PolicyEngine_Evaluate h e ctx =
        \<lparr>Decision = (case first_allow h ctx (policies e) of
                       Some d \<Rightarrow> d
                     | None \<Rightarrow> \<lparr>Effect = EffectDeny, PolicyDecision.PolicyName = ''default'',
                         PolicyDecision.Reason = ''No policy explicitly granted access.''\<rparr>),
         Trace = \<lparr>Context = ctx, Steps = Some (map (step_of h ctx) (policies e))\<rparr>\<rparr>"
    by (simp add: Evaluate_no_deny defaultDeny_def split: option.splits)
next
  assume "policies e = []"
  then show "PolicyEngine_Evaluate h e ctx =
        \<lparr>Decision = \<lparr>Effect = EffectDeny, PolicyDecision.PolicyName = ''default'',
                      PolicyDecision.Reason = ''No policy explicitly granted access.''\<rparr>,
         Trace = \<lparr>Context = ctx, Steps = Some []\<rparr>\<rparr>"
    by (simp add: PolicyEngine_Evaluate_def defaultDeny_def)
qed

text \<open>
  The three cases of C1 on the default engine and on the engine without policies: an
  engineer's read of a restricted resource without MFA (Admin abstains, MFA denies, three
  policies are never consulted), an admin's request (nobody denies, Admin's Allow is
  the first), and any request on the empty engine.
\<close>

theorem C1_Evaluate_witness:
  "PolicyEngine_Evaluate no_tags DefaultPolicyEngine engineer_request =
     \<lparr>Decision = \<lparr>Effect = EffectDeny,
                   PolicyDecision.PolicyName = ''MFARequiredForRestricted'',
                   PolicyDecision.Reason = ''MFA required to access restricted resources.''\<rparr>,
      Trace = \<lparr>Context = engineer_request,
               Steps = Some [
                 \<lparr>PolicyStep.PolicyName = ''AdminFullAccess'', Outcome = StepAbstain,
                  PolicyStep.Reason = ''''\<rparr>,
                 \<lparr>PolicyStep.PolicyName = ''MFARequiredForRestricted'', Outcome = StepDeny,
                  PolicyStep.Reason = ''MFA required to access restricted resources.''\<rparr>]\<rparr>\<rparr>
   \<and> Decision (PolicyEngine_Evaluate no_tags DefaultPolicyEngine admin_request) =
       \<lparr>Effect = EffectAllow, PolicyDecision.PolicyName = ''AdminFullAccess'',
        PolicyDecision.Reason = ''Admin role has unrestricted access.''\<rparr>
   \<and> map Outcome (elems (Steps (Trace
         (PolicyEngine_Evaluate no_tags DefaultPolicyEngine admin_request)))) =
       [StepAllow, StepAbstain, StepAbstain, StepAbstain, StepAbstain]
   \<and> PolicyEngine_Evaluate no_tags empty_engine engineer_request =
       \<lparr>Decision = \<lparr>Effect = EffectDeny, PolicyDecision.PolicyName = ''default'',
                     PolicyDecision.Reason = ''No policy explicitly granted access.''\<rparr>,
        Trace = \<lparr>Context = engineer_request, Steps = Some []\<rparr>\<rparr>"
proof -
  have first_deny:
    "policies DefaultPolicyEngine =
       [AdminFullAccess] @ MFARequiredForRestricted #
         [ProductionImmutability, AnalystReadOnly, EngineerAccess] \<and>
     (\<forall>q\<in>set [AdminFullAccess]. \<not> denies no_tags engineer_request q) \<and>
     Evaluate MFARequiredForRestricted no_tags engineer_request =
       Some \<lparr>Effect = EffectDeny, PolicyDecision.PolicyName = ''MFARequiredForRestricted'',
             PolicyDecision.Reason = ''MFA required to access restricted resources.''\<rparr> \<and>
     Effect \<lparr>Effect = EffectDeny, PolicyDecision.PolicyName = ''MFARequiredForRestricted'',
             PolicyDecision.Reason = ''MFA required to access restricted resources.''\<rparr>
       = EffectDeny"
    by (simp add: DefaultPolicyEngine_policies denies_def engineer_request_def
        AdminFullAccess_def MFARequiredForRestricted_def)
  have nobody_denies:
    "\<forall>q\<in>set (policies DefaultPolicyEngine). \<not> denies no_tags admin_request q"
    by (simp add: DefaultPolicyEngine_policies denies_def admin_request_def
        AdminFullAccess_def MFARequiredForRestricted_def ProductionImmutability_def
        AnalystReadOnly_def EngineerAccess_def)
  have no_policy: "policies empty_engine = []"
    by (simp add: empty_engine_def)
  note claim = C1_Evaluate_deny_wins_first_allow_default_deny
  from claim [of DefaultPolicyEngine no_tags engineer_request, THEN conjunct1, rule_format,
      OF first_deny]
  have a: "PolicyEngine_Evaluate no_tags DefaultPolicyEngine engineer_request =
     \<lparr>Decision = \<lparr>Effect = EffectDeny,
                   PolicyDecision.PolicyName = ''MFARequiredForRestricted'',
                   PolicyDecision.Reason = ''MFA required to access restricted resources.''\<rparr>,
      Trace = \<lparr>Context = engineer_request,
               Steps = Some [
                 \<lparr>PolicyStep.PolicyName = ''AdminFullAccess'', Outcome = StepAbstain,
                  PolicyStep.Reason = ''''\<rparr>,
                 \<lparr>PolicyStep.PolicyName = ''MFARequiredForRestricted'', Outcome = StepDeny,
                  PolicyStep.Reason = ''MFA required to access restricted resources.''\<rparr>]\<rparr>\<rparr>"
    by (simp add: step_of_def engineer_request_def AdminFullAccess_def
        MFARequiredForRestricted_def)
  from claim [of DefaultPolicyEngine no_tags admin_request, THEN conjunct2, THEN conjunct1,
      THEN mp, OF nobody_denies]
  have b: "Decision (PolicyEngine_Evaluate no_tags DefaultPolicyEngine admin_request) =
       \<lparr>Effect = EffectAllow, PolicyDecision.PolicyName = ''AdminFullAccess'',
        PolicyDecision.Reason = ''Admin role has unrestricted access.''\<rparr>"
    and c: "map Outcome (elems (Steps (Trace
         (PolicyEngine_Evaluate no_tags DefaultPolicyEngine admin_request)))) =
       [StepAllow, StepAbstain, StepAbstain, StepAbstain, StepAbstain]"
    by (simp_all add: DefaultPolicyEngine_policies first_allow_Cons step_of_def
        admin_request_def AdminFullAccess_def MFARequiredForRestricted_def
        ProductionImmutability_def AnalystReadOnly_def EngineerAccess_def)
  from claim [of empty_engine no_tags engineer_request, THEN conjunct2, THEN conjunct2,
      rule_format, OF no_policy]
  have d: "PolicyEngine_Evaluate no_tags empty_engine engineer_request =
       \<lparr>Decision = \<lparr>Effect = EffectDeny, PolicyDecision.PolicyName = ''default'',
                     PolicyDecision.Reason = ''No policy explicitly granted access.''\<rparr>,
        Trace = \<lparr>Context = engineer_request, Steps = Some []\<rparr>\<rparr>" .
  from a b c d show ?thesis by blast
qed

text \<open>
  C2, as amended. After any sequence of \<open>RegisterPolicy\<close> calls on a new engine the policy
  sequence is sorted by descending priority, and the policies of any one priority stand
  in the order of their registration. Consequently, when a policy of priority -1 is
  registered before a policy of priority 0, the engine consults the priority-0 policy
  first; and when the priority-0 policy allows and the priority -1 policy does not deny,
  that Allow is the final decision, the trace showing the priority-0 policy first.
\<close>

theorem C2_registration_keeps_priority_order:
  "sorted_wrt (\<lambda>a b. Priority a \<ge> Priority b)
     (policies (foldl RegisterPolicy empty_engine ps))
   \<and> (\<forall>k. filter (\<lambda>p. Priority p = k) (policies (foldl RegisterPolicy empty_engine ps)) =
           filter (\<lambda>p. Priority p = k) ps)
   \<and> (Priority lo = - 1 \<and> Priority hi = 0 \<longrightarrow>
        policies (RegisterPolicy (RegisterPolicy empty_engine lo) hi) = [hi, lo])
   \<and> (Priority lo = - 1 \<and> Priority hi = 0 \<and>
      Evaluate hi h ctx = Some d \<and> Effect d = EffectAllow \<and> \<not> denies h ctx lo \<longrightarrow>
        Decision (PolicyEngine_Evaluate h (RegisterPolicy (RegisterPolicy empty_engine lo) hi)
          ctx) = d
        \<and> Steps (Trace (PolicyEngine_Evaluate h
            (RegisterPolicy (RegisterPolicy empty_engine lo) hi) ctx)) =
          Some [step_of h ctx hi, step_of h ctx lo])"
proof (intro conjI allI impI)
  show "sorted_wrt (\<lambda>a b. Priority a \<ge> Priority b)
     (policies (foldl RegisterPolicy empty_engine ps))"
    by (rule sorted_registered)
next
  fix k
  show "filter (\<lambda>p. Priority p = k) (policies (foldl RegisterPolicy empty_engine ps)) =
           filter (\<lambda>p. Priority p = k) ps"
    by (rule stable_registered)
next
  assume "Priority lo = - 1 \<and> Priority hi = 0"
  then show "policies (RegisterPolicy (RegisterPolicy empty_engine lo) hi) = [hi, lo]"
    by (simp add: policies_RegisterPolicy empty_engine_def)
next
  assume a: "Priority lo = - 1 \<and> Priority hi = 0 \<and>
      Evaluate hi h ctx = Some d \<and> Effect d = EffectAllow \<and> \<not> denies h ctx lo"
  then have order: "policies (RegisterPolicy (RegisterPolicy empty_engine lo) hi) = [hi, lo]"
    by (simp add: policies_RegisterPolicy empty_engine_def)
  from a have "\<not> denies h ctx hi"
    by (simp add: denies_def)
  with a order
  have nobody: "\<forall>q\<in>set (policies (RegisterPolicy (RegisterPolicy empty_engine lo) hi)).
      \<not> denies h ctx q"
    by simp
  from a show "Decision (PolicyEngine_Evaluate h
      (RegisterPolicy (RegisterPolicy empty_engine lo) hi) ctx) = d"
    by (simp add: Evaluate_no_deny [OF nobody] order first_allow_Cons)
  show "Steps (Trace (PolicyEngine_Evaluate h
            (RegisterPolicy (RegisterPolicy empty_engine lo) hi) ctx)) =
          Some [step_of h ctx hi, step_of h ctx lo]"
    by (simp add: Evaluate_no_deny [OF nobody] order)
qed

text \<open>
  C2 at the scenario of the repository's test: an abstaining policy of priority -1 is
  registered before an allowing policy of priority 0.
\<close>

theorem C2_registration_witness:
  "Priority (always ''NegativePriority'' (- 1) None) = - 1
   \<and> Priority (always ''ZeroPriority'' 0 (Some (allow_decision ''ZeroPriority''))) = 0
   \<and> \<not> denies no_tags engineer_request (always ''NegativePriority'' (- 1) None)
   \<and> map Policy.Name (policies (RegisterPolicy (RegisterPolicy empty_engine
         (always ''NegativePriority'' (- 1) None))
         (always ''ZeroPriority'' 0 (Some (allow_decision ''ZeroPriority''))))) =
       [''ZeroPriority'', ''NegativePriority'']
   \<and> Decision (PolicyEngine_Evaluate no_tags (RegisterPolicy (RegisterPolicy empty_engine
         (always ''NegativePriority'' (- 1) None))
         (always ''ZeroPriority'' 0 (Some (allow_decision ''ZeroPriority'')))) engineer_request) =
       allow_decision ''ZeroPriority''
   \<and> map PolicyStep.PolicyName (elems (Steps (Trace (PolicyEngine_Evaluate no_tags
         (RegisterPolicy (RegisterPolicy empty_engine
           (always ''NegativePriority'' (- 1) None))
           (always ''ZeroPriority'' 0 (Some (allow_decision ''ZeroPriority''))))
         engineer_request)))) =
       [''ZeroPriority'', ''NegativePriority'']"
proof -
  have hyp: "Priority (always ''NegativePriority'' (- 1) None) = - 1 \<and>
      Priority (always ''ZeroPriority'' 0 (Some (allow_decision ''ZeroPriority''))) = 0 \<and>
      Evaluate (always ''ZeroPriority'' 0 (Some (allow_decision ''ZeroPriority''))) no_tags
        engineer_request = Some (allow_decision ''ZeroPriority'') \<and>
      Effect (allow_decision ''ZeroPriority'') = EffectAllow \<and>
      \<not> denies no_tags engineer_request (always ''NegativePriority'' (- 1) None)"
    by (simp add: always_def allow_decision_def denies_def)
  note claim = C2_registration_keeps_priority_order
    [of "[always ''NegativePriority'' (- 1) None,
          always ''ZeroPriority'' 0 (Some (allow_decision ''ZeroPriority''))]"
        "always ''NegativePriority'' (- 1) None"
        "always ''ZeroPriority'' 0 (Some (allow_decision ''ZeroPriority''))"
        no_tags engineer_request "allow_decision ''ZeroPriority''"]
  from hyp claim show ?thesis
    by (simp add: step_of_def always_def)
qed

text \<open>
  The claim as it is written fails when the policy of priority -1 denies: it is
  consulted second, and its Deny is the final decision although the priority-0 policy
  allowed.
\<close>

theorem C2_counterexample:
  "Priority (always ''NegativePriority'' (- 1) (Some (deny_decision ''NegativePriority''))) = - 1
   \<and> Priority (always ''ZeroPriority'' 0 (Some (allow_decision ''ZeroPriority''))) = 0
   \<and> allows no_tags engineer_request
       (always ''ZeroPriority'' 0 (Some (allow_decision ''ZeroPriority'')))
   \<and> Decision (PolicyEngine_Evaluate no_tags (RegisterPolicy (RegisterPolicy empty_engine
         (always ''NegativePriority'' (- 1) (Some (deny_decision ''NegativePriority''))))
         (always ''ZeroPriority'' 0 (Some (allow_decision ''ZeroPriority'')))) engineer_request) =
       deny_decision ''NegativePriority''
   \<and> Effect (deny_decision ''NegativePriority'') = EffectDeny"
  by (simp add: PolicyEngine_Evaluate_def policies_RegisterPolicy empty_engine_def always_def
      allow_decision_def deny_decision_def allows_def append_slice_def)

text \<open>
  C3. In the default engine (Admin, MFA, ProductionImmutability, AnalystReadOnly,
  EngineerAccess registered in this order, all at priority 0), every request of an
  engineer for a read of a restricted resource in staging without verified MFA is
  denied by the policy named MFARequiredForRestricted; EngineerAccess itself abstains
  on such a request. The identifiers, the department, the resource type, the tag map
  and the store are arbitrary.
\<close>

theorem C3_engineer_restricted_staging_denied_by_MFA:
  "(map Priority (policies DefaultPolicyEngine) = [0, 0, 0, 0, 0]
    \<and> map Policy.Name (policies DefaultPolicyEngine) =
        [''AdminFullAccess'', ''MFARequiredForRestricted'', ''ProductionImmutability'',
         ''AnalystReadOnly'', ''EngineerAccess''])
   \<and> Effect (Decision (PolicyEngine_Evaluate h DefaultPolicyEngine
        \<lparr>Principal = \<lparr>Principal.ID = pid, Role = ''engineer'', Department = dep\<rparr>,
         Resource = \<lparr>Resource.ID = rid, Type = ty, Classification = ''restricted'', Tags = tags\<rparr>,
         Action = \<lparr>Verb = ''read''\<rparr>, Environment = ''staging'', MFAVerified = False\<rparr>))
      = EffectDeny
   \<and> PolicyDecision.PolicyName (Decision (PolicyEngine_Evaluate h DefaultPolicyEngine
        \<lparr>Principal = \<lparr>Principal.ID = pid, Role = ''engineer'', Department = dep\<rparr>,
         Resource = \<lparr>Resource.ID = rid, Type = ty, Classification = ''restricted'', Tags = tags\<rparr>,
         Action = \<lparr>Verb = ''read''\<rparr>, Environment = ''staging'', MFAVerified = False\<rparr>))
      = ''MFARequiredForRestricted''
   \<and> Evaluate EngineerAccess h
        \<lparr>Principal = \<lparr>Principal.ID = pid, Role = ''engineer'', Department = dep\<rparr>,
         Resource = \<lparr>Resource.ID = rid, Type = ty, Classification = ''restricted'', Tags = tags\<rparr>,
         Action = \<lparr>Verb = ''read''\<rparr>, Environment = ''staging'', MFAVerified = False\<rparr>
      = None"
  by (simp add: PolicyEngine_Evaluate_def DefaultPolicyEngine_policies append_slice_def
      AdminFullAccess_def MFARequiredForRestricted_def ProductionImmutability_def
      AnalystReadOnly_def EngineerAccess_def)

text \<open>
  C10. The trace returned by \<open>Evaluate\<close> holds at most one row with outcome Deny. A row
  with outcome Deny is the last row of the trace, and when there is one, the returned
  decision has effect Deny and is the decision rendered by the policy that the last row
  belongs to (the policy at the row's position in the engine's sequence), the row
  carrying that policy's name and the decision's reason.
\<close>

theorem C10_at_most_one_Deny_step_and_it_is_last:
  "length (filter (\<lambda>s. Outcome s = StepDeny)
      (elems (Steps (Trace (PolicyEngine_Evaluate h e ctx))))) \<le> 1
   \<and> (\<forall>i < length (elems (Steps (Trace (PolicyEngine_Evaluate h e ctx)))).
        Outcome (elems (Steps (Trace (PolicyEngine_Evaluate h e ctx))) ! i) = StepDeny \<longrightarrow>
        Suc i = length (elems (Steps (Trace (PolicyEngine_Evaluate h e ctx)))))
   \<and> ((\<exists>s\<in>set (elems (Steps (Trace (PolicyEngine_Evaluate h e ctx)))). Outcome s = StepDeny) \<longrightarrow>
        Effect (Decision (PolicyEngine_Evaluate h e ctx)) = EffectDeny
        \<and> length (elems (Steps (Trace (PolicyEngine_Evaluate h e ctx)))) \<le> length (policies e)
        \<and> Evaluate
            (policies e ! (length (elems (Steps (Trace (PolicyEngine_Evaluate h e ctx)))) - 1))
            h ctx = Some (Decision (PolicyEngine_Evaluate h e ctx))
        \<and> last (elems (Steps (Trace (PolicyEngine_Evaluate h e ctx)))) =
            \<lparr>PolicyStep.PolicyName = Policy.Name
               (policies e ! (length (elems (Steps (Trace (PolicyEngine_Evaluate h e ctx)))) - 1)),
             Outcome = StepDeny,
             PolicyStep.Reason =
               PolicyDecision.Reason (Decision (PolicyEngine_Evaluate h e ctx))\<rparr>)"
proof (cases "\<exists>q\<in>set (policies e). denies h ctx q")
  case False
  then have nobody: "\<forall>q\<in>set (policies e). \<not> denies h ctx q" by simp
  have steps: "elems (Steps (Trace (PolicyEngine_Evaluate h e ctx))) =
      map (step_of h ctx) (policies e)"
    by (simp add: Evaluate_no_deny [OF nobody])
  from nobody have none: "\<forall>s\<in>set (map (step_of h ctx) (policies e)). Outcome s \<noteq> StepDeny"
    by (simp add: step_of_not_Deny)
  then have "filter (\<lambda>s. Outcome s = StepDeny) (map (step_of h ctx) (policies e)) = []"
    by (simp add: filter_empty_conv)
  moreover from none
  have "\<forall>i < length (map (step_of h ctx) (policies e)).
      Outcome (map (step_of h ctx) (policies e) ! i) \<noteq> StepDeny"
    using nth_mem by blast
  ultimately show ?thesis
    unfolding steps using none by simp
next
  case True
  from first_denier [OF this] obtain pre p post d
    where split: "policies e = pre @ p # post"
      and pre: "\<forall>q\<in>set pre. \<not> denies h ctx q"
      and p: "Evaluate p h ctx = Some d" and d: "Effect d = EffectDeny"
    by blast
  let ?row = "\<lparr>PolicyStep.PolicyName = Policy.Name p, Outcome = StepDeny,
      PolicyStep.Reason = PolicyDecision.Reason d\<rparr>"
  note result = Evaluate_deny [OF split pre p d]
  have steps: "elems (Steps (Trace (PolicyEngine_Evaluate h e ctx))) =
      map (step_of h ctx) pre @ [?row]"
    by (simp add: result)
  have decision: "Decision (PolicyEngine_Evaluate h e ctx) = d"
    by (simp add: result)
  from pre have none: "\<forall>s\<in>set (map (step_of h ctx) pre). Outcome s \<noteq> StepDeny"
    by (simp add: step_of_not_Deny)
  then have one: "filter (\<lambda>s. Outcome s = StepDeny) (map (step_of h ctx) pre @ [?row]) = [?row]"
    by (simp add: filter_empty_conv)
  have position: "\<forall>i < length (map (step_of h ctx) pre @ [?row]).
      Outcome ((map (step_of h ctx) pre @ [?row]) ! i) = StepDeny \<longrightarrow>
      Suc i = length (map (step_of h ctx) pre @ [?row])"
  proof (intro allI impI)
    fix i
    assume i: "i < length (map (step_of h ctx) pre @ [?row])"
      and deny: "Outcome ((map (step_of h ctx) pre @ [?row]) ! i) = StepDeny"
    show "Suc i = length (map (step_of h ctx) pre @ [?row])"
    proof (cases "i < length pre")
      case True
      with pre have "Outcome (step_of h ctx (pre ! i)) \<noteq> StepDeny"
        by (simp add: step_of_not_Deny)
      with True deny show ?thesis by (simp add: nth_append)
    next
      case False
      with i show ?thesis by simp
    qed
  qed
  have at: "policies e ! (length (map (step_of h ctx) pre @ [?row]) - 1) = p"
    by (simp add: split)
  have shorter: "length (map (step_of h ctx) pre @ [?row]) \<le> length (policies e)"
    by (simp add: split)
  from one position at shorter p d show ?thesis
    unfolding steps decision by simp
qed

text \<open>
  C10 on the default engine and the engineer's request for a restricted resource: the
  trace has a Deny row, the second and last one, written for MFARequiredForRestricted.
\<close>

theorem C10_Deny_step_witness:
  "(\<exists>s\<in>set (elems (Steps (Trace
       (PolicyEngine_Evaluate no_tags DefaultPolicyEngine engineer_request)))).
      Outcome s = StepDeny)
   \<and> length (elems (Steps (Trace
       (PolicyEngine_Evaluate no_tags DefaultPolicyEngine engineer_request)))) = 2
   \<and> Effect (Decision (PolicyEngine_Evaluate no_tags DefaultPolicyEngine engineer_request)) =
       EffectDeny
   \<and> Evaluate (policies DefaultPolicyEngine ! 1) no_tags engineer_request =
       Some (Decision (PolicyEngine_Evaluate no_tags DefaultPolicyEngine engineer_request))
   \<and> PolicyStep.PolicyName (last (elems (Steps (Trace
       (PolicyEngine_Evaluate no_tags DefaultPolicyEngine engineer_request))))) =
       ''MFARequiredForRestricted''"
proof -
  have steps: "elems (Steps (Trace
       (PolicyEngine_Evaluate no_tags DefaultPolicyEngine engineer_request))) =
     [\<lparr>PolicyStep.PolicyName = ''AdminFullAccess'', Outcome = StepAbstain,
       PolicyStep.Reason = ''''\<rparr>,
      \<lparr>PolicyStep.PolicyName = ''MFARequiredForRestricted'', Outcome = StepDeny,
       PolicyStep.Reason = ''MFA required to access restricted resources.''\<rparr>]"
    by (simp add: PolicyEngine_Evaluate_def DefaultPolicyEngine_policies append_slice_def
        engineer_request_def AdminFullAccess_def MFARequiredForRestricted_def)
  have name: "Policy.Name (policies DefaultPolicyEngine ! 1) = ''MFARequiredForRestricted''"
    by (simp add: DefaultPolicyEngine_policies MFARequiredForRestricted_def)
  from C10_at_most_one_Deny_step_and_it_is_last
    [of no_tags DefaultPolicyEngine engineer_request]
  show ?thesis
    unfolding steps by (simp add: name)
qed

section \<open>Claims about the combinators\<close>

lemma AnyOf_loop_no_allow:
  "\<forall>q\<in>set ps. \<not> allows h ctx q \<Longrightarrow>
   AnyOf_loop h ctx name ps (Some fd) fdn =
     Some \<lparr>Effect = EffectDeny, PolicyDecision.PolicyName = name,
           PolicyDecision.Reason =
             ''AnyOf denied by sub-policy '' @ fdn @ '': '' @ PolicyDecision.Reason fd\<rparr>"
proof (induction ps)
  case Nil
  show ?case by simp
next
  case (Cons p ps)
  then show ?case
    by (cases "Evaluate p h ctx") (simp_all add: allows_def)
qed

lemma AnyOf_loop_abstain_prefix:
  "\<forall>q\<in>set pre. Evaluate q h ctx = None \<Longrightarrow>
   AnyOf_loop h ctx name (pre @ ps) fd fdn = AnyOf_loop h ctx name ps fd fdn"
  by (induction pre) simp_all

lemma AnyOf_loop_first_allow:
  "\<forall>q\<in>set pre. \<not> allows h ctx q \<Longrightarrow> Evaluate p h ctx = Some d \<Longrightarrow> Effect d = EffectAllow \<Longrightarrow>
   AnyOf_loop h ctx name (pre @ p # post) fd fdn =
     Some \<lparr>Effect = EffectAllow, PolicyDecision.PolicyName = name,
           PolicyDecision.Reason =
             ''AnyOf allowed by sub-policy '' @ Policy.Name p @ '': '' @
             PolicyDecision.Reason d\<rparr>"
proof (induction pre arbitrary: fd fdn)
  case Nil
  then show ?case by simp
next
  case (Cons q pre)
  from Cons.prems have rest: "\<forall>q\<in>set pre. \<not> allows h ctx q" and here: "\<not> allows h ctx q"
    by simp_all
  note IH = Cons.IH [OF rest Cons.prems(2) Cons.prems(3)]
  show ?case
  proof (cases "Evaluate q h ctx")
    case None
    then show ?thesis by (simp add: IH)
  next
    case (Some d')
    with here have "Effect d' \<noteq> EffectAllow" by (simp add: allows_def)
    with Some show ?thesis by (cases fd) (simp_all add: IH)
  qed
qed

lemma NoneOf_loop_no_allow:
  "\<forall>q\<in>set ps. \<not> allows h ctx q \<Longrightarrow> NoneOf_loop h ctx name ps = None"
proof (induction ps)
  case Nil
  show ?case by simp
next
  case (Cons p ps)
  then show ?case
    by (cases "Evaluate p h ctx") (simp_all add: allows_def)
qed

lemma NoneOf_loop_first_allow:
  "\<forall>q\<in>set pre. \<not> allows h ctx q \<Longrightarrow> Evaluate p h ctx = Some d \<Longrightarrow> Effect d = EffectAllow \<Longrightarrow>
   NoneOf_loop h ctx name (pre @ p # post) =
     Some \<lparr>Effect = EffectDeny, PolicyDecision.PolicyName = name,
           PolicyDecision.Reason =
             ''NoneOf blocked by sub-policy '' @ Policy.Name p @ '': '' @
             PolicyDecision.Reason d\<rparr>"
proof (induction pre)
  case Nil
  then show ?case by simp
next
  case (Cons q pre)
  from Cons.prems have rest: "\<forall>q\<in>set pre. \<not> allows h ctx q" and here: "\<not> allows h ctx q"
    by simp_all
  note IH = Cons.IH [OF rest Cons.prems(2) Cons.prems(3)]
  from here show ?case
    by (cases "Evaluate q h ctx") (simp_all add: IH allows_def)
qed

lemma first_allower:
  assumes "\<exists>q\<in>set ps. allows h ctx q"
  shows "\<exists>pre p post d. ps = pre @ p # post \<and> (\<forall>q\<in>set pre. \<not> allows h ctx q) \<and>
           Evaluate p h ctx = Some d \<and> Effect d = EffectAllow"
proof -
  from split_list_first_prop [OF assms] obtain pre p post
    where split: "ps = pre @ p # post" and p: "allows h ctx p"
      and pre: "\<forall>q\<in>set pre. \<not> allows h ctx q"
    by blast
  from p obtain d where "Evaluate p h ctx = Some d" "Effect d = EffectAllow"
    by (cases "Evaluate p h ctx") (simp_all add: allows_def)
  with split pre show ?thesis by blast
qed

text \<open>
  C4. \<open>AnyOf name ps\<close> scans \<open>ps\<close> in order. If \<open>p\<close> is the first sub-policy that allows,
  with decision \<open>d\<close>, the combinator allows under its own name with reason
  "AnyOf allowed by sub-policy <name of p>: <reason of d>". If no sub-policy allows and
  \<open>p\<close> is the first that denies (every sub-policy before it abstains), the combinator
  denies with reason "AnyOf denied by sub-policy <name of p>: <reason of d>". If every
  sub-policy abstains, the combinator abstains.
\<close>

theorem C4_AnyOf_first_allow_else_first_deny_else_abstain:
  "(\<forall>pre p post d.
      ps = pre @ p # post \<and> (\<forall>q\<in>set pre. \<not> allows h ctx q) \<and>
      Evaluate p h ctx = Some d \<and> Effect d = EffectAllow \<longrightarrow>
      Evaluate (AnyOf name ps) h ctx =
        Some \<lparr>Effect = EffectAllow, PolicyDecision.PolicyName = name,
              PolicyDecision.Reason =
                ''AnyOf allowed by sub-policy '' @ Policy.Name p @ '': '' @
                PolicyDecision.Reason d\<rparr>)
   \<and> (\<forall>pre p post d.
      (\<forall>q\<in>set ps. \<not> allows h ctx q) \<and>
      ps = pre @ p # post \<and> (\<forall>q\<in>set pre. Evaluate q h ctx = None) \<and>
      Evaluate p h ctx = Some d \<and> Effect d = EffectDeny \<longrightarrow>
      Evaluate (AnyOf name ps) h ctx =
        Some \<lparr>Effect = EffectDeny, PolicyDecision.PolicyName = name,
              PolicyDecision.Reason =
                ''AnyOf denied by sub-policy '' @ Policy.Name p @ '': '' @
                PolicyDecision.Reason d\<rparr>)
   \<and> ((\<forall>q\<in>set ps. Evaluate q h ctx = None) \<longrightarrow> Evaluate (AnyOf name ps) h ctx = None)"
proof (intro conjI allI impI)
  fix pre p post d
  assume "ps = pre @ p # post \<and> (\<forall>q\<in>set pre. \<not> allows h ctx q) \<and>
      Evaluate p h ctx = Some d \<and> Effect d = EffectAllow"
  then show "Evaluate (AnyOf name ps) h ctx =
        Some \<lparr>Effect = EffectAllow, PolicyDecision.PolicyName = name,
              PolicyDecision.Reason =
                ''AnyOf allowed by sub-policy '' @ Policy.Name p @ '': '' @
                PolicyDecision.Reason d\<rparr>"
    by (simp add: AnyOf_def AnyOf_loop_first_allow)
next
  fix pre p post d
  assume a: "(\<forall>q\<in>set ps. \<not> allows h ctx q) \<and>
      ps = pre @ p # post \<and> (\<forall>q\<in>set pre. Evaluate q h ctx = None) \<and>
      Evaluate p h ctx = Some d \<and> Effect d = EffectDeny"
  then have post: "\<forall>q\<in>set post. \<not> allows h ctx q" by simp
  from a have "AnyOf_loop h ctx name ps None '''' = AnyOf_loop h ctx name (p # post) None ''''"
    by (simp add: AnyOf_loop_abstain_prefix)
  also from a have "\<dots> = AnyOf_loop h ctx name post (Some d) (Policy.Name p)"
    by simp
  finally show "Evaluate (AnyOf name ps) h ctx =
        Some \<lparr>Effect = EffectDeny, PolicyDecision.PolicyName = name,
              PolicyDecision.Reason =
                ''AnyOf denied by sub-policy '' @ Policy.Name p @ '': '' @
                PolicyDecision.Reason d\<rparr>"
    by (simp add: AnyOf_def AnyOf_loop_no_allow [OF post])
next
  assume "\<forall>q\<in>set ps. Evaluate q h ctx = None"
  then have "AnyOf_loop h ctx name (ps @ []) None '''' = AnyOf_loop h ctx name [] None ''''"
    by (rule AnyOf_loop_abstain_prefix)
  then show "Evaluate (AnyOf name ps) h ctx = None"
    by (simp add: AnyOf_def)
qed

text \<open>
  The three cases of C4 on constant sub-policies: abstain, deny, allow (the Allow wins
  over the earlier Deny); abstain, deny A, deny B (the first Deny is reported); abstain,
  abstain.
\<close>

theorem C4_AnyOf_witness:
  "Evaluate (AnyOf ''X'' [always ''N'' 0 None, always ''A'' 0 (Some (deny_decision ''A'')),
       always ''B'' 0 (Some (allow_decision ''B''))]) no_tags engineer_request =
     Some \<lparr>Effect = EffectAllow, PolicyDecision.PolicyName = ''X'',
           PolicyDecision.Reason = ''AnyOf allowed by sub-policy B: B allow''\<rparr>
   \<and> Evaluate (AnyOf ''X'' [always ''N'' 0 None, always ''A'' 0 (Some (deny_decision ''A'')),
       always ''B'' 0 (Some (deny_decision ''B''))]) no_tags engineer_request =
     Some \<lparr>Effect = EffectDeny, PolicyDecision.PolicyName = ''X'',
           PolicyDecision.Reason = ''AnyOf denied by sub-policy A: A deny''\<rparr>
   \<and> Evaluate (AnyOf ''X'' [always ''N'' 0 None, always ''M'' 0 None]) no_tags
       engineer_request = None"
proof -
  note claim = C4_AnyOf_first_allow_else_first_deny_else_abstain
  have allow_hyp:
    "[always ''N'' 0 None, always ''A'' 0 (Some (deny_decision ''A'')),
       always ''B'' 0 (Some (allow_decision ''B''))] =
       [always ''N'' 0 None, always ''A'' 0 (Some (deny_decision ''A''))] @
         always ''B'' 0 (Some (allow_decision ''B'')) # [] \<and>
     (\<forall>q\<in>set [always ''N'' 0 None, always ''A'' 0 (Some (deny_decision ''A''))].
        \<not> allows no_tags engineer_request q) \<and>
     Evaluate (always ''B'' 0 (Some (allow_decision ''B''))) no_tags engineer_request =
       Some (allow_decision ''B'') \<and>
     Effect (allow_decision ''B'') = EffectAllow"
    by (simp add: always_def allows_def allow_decision_def deny_decision_def)
  have deny_hyp:
    "(\<forall>q\<in>set [always ''N'' 0 None, always ''A'' 0 (Some (deny_decision ''A'')),
         always ''B'' 0 (Some (deny_decision ''B''))]. \<not> allows no_tags engineer_request q) \<and>
     [always ''N'' 0 None, always ''A'' 0 (Some (deny_decision ''A'')),
       always ''B'' 0 (Some (deny_decision ''B''))] =
       [always ''N'' 0 None] @ always ''A'' 0 (Some (deny_decision ''A'')) #
         [always ''B'' 0 (Some (deny_decision ''B''))] \<and>
     (\<forall>q\<in>set [always ''N'' 0 None]. Evaluate q no_tags engineer_request = None) \<and>
     Evaluate (always ''A'' 0 (Some (deny_decision ''A''))) no_tags engineer_request =
       Some (deny_decision ''A'') \<and>
     Effect (deny_decision ''A'') = EffectDeny"
    by (simp add: always_def allows_def deny_decision_def)
  have abstain_hyp:
    "\<forall>q\<in>set [always ''N'' 0 None, always ''M'' 0 None].
       Evaluate q no_tags engineer_request = None"
    by (simp add: always_def)
  from claim [THEN conjunct1, rule_format, OF allow_hyp]
  have a: "Evaluate (AnyOf ''X'' [always ''N'' 0 None,
       always ''A'' 0 (Some (deny_decision ''A'')),
       always ''B'' 0 (Some (allow_decision ''B''))]) no_tags engineer_request =
     Some \<lparr>Effect = EffectAllow, PolicyDecision.PolicyName = ''X'',
           PolicyDecision.Reason = ''AnyOf allowed by sub-policy B: B allow''\<rparr>"
    by (simp add: always_def allow_decision_def)
  from claim [THEN conjunct2, THEN conjunct1, rule_format, OF deny_hyp]
  have b: "Evaluate (AnyOf ''X'' [always ''N'' 0 None,
       always ''A'' 0 (Some (deny_decision ''A'')),
       always ''B'' 0 (Some (deny_decision ''B''))]) no_tags engineer_request =
     Some \<lparr>Effect = EffectDeny, PolicyDecision.PolicyName = ''X'',
           PolicyDecision.Reason = ''AnyOf denied by sub-policy A: A deny''\<rparr>"
    by (simp add: always_def deny_decision_def)
  from claim [THEN conjunct2, THEN conjunct2, THEN mp, OF abstain_hyp]
  have c: "Evaluate (AnyOf ''X'' [always ''N'' 0 None, always ''M'' 0 None]) no_tags
       engineer_request = None" .
  from a b c show ?thesis by blast
qed

text \<open>
  C5. \<open>NoneOf name ps\<close> scans \<open>ps\<close> in order. If \<open>p\<close> is the first sub-policy that allows,
  with decision \<open>d\<close>, the combinator denies under its own name with reason
  "NoneOf blocked by sub-policy <name of p>: <reason of d>". If no sub-policy allows
  (all abstain, all deny, or a mixture) it abstains. So it renders a decision exactly
  when some sub-policy allows, and that decision is always a Deny.
\<close>

theorem C5_NoneOf_denies_iff_some_sub_policy_allows:
  "(\<forall>pre p post d.
      ps = pre @ p # post \<and> (\<forall>q\<in>set pre. \<not> allows h ctx q) \<and>
      Evaluate p h ctx = Some d \<and> Effect d = EffectAllow \<longrightarrow>
      Evaluate (NoneOf name ps) h ctx =
        Some \<lparr>Effect = EffectDeny, PolicyDecision.PolicyName = name,
              PolicyDecision.Reason =
                ''NoneOf blocked by sub-policy '' @ Policy.Name p @ '': '' @
                PolicyDecision.Reason d\<rparr>)
   \<and> ((\<forall>q\<in>set ps. \<not> allows h ctx q) \<longrightarrow> Evaluate (NoneOf name ps) h ctx = None)
   \<and> ((\<exists>r. Evaluate (NoneOf name ps) h ctx = Some r \<and> Effect r = EffectDeny) =
        (\<exists>q\<in>set ps. allows h ctx q))
   \<and> (\<forall>r. Evaluate (NoneOf name ps) h ctx = Some r \<longrightarrow> Effect r = EffectDeny)"
proof -
  have blocked: "Evaluate (NoneOf name ps) h ctx =
        Some \<lparr>Effect = EffectDeny, PolicyDecision.PolicyName = name,
              PolicyDecision.Reason =
                ''NoneOf blocked by sub-policy '' @ Policy.Name p @ '': '' @
                PolicyDecision.Reason d\<rparr>"
    if "ps = pre @ p # post \<and> (\<forall>q\<in>set pre. \<not> allows h ctx q) \<and>
      Evaluate p h ctx = Some d \<and> Effect d = EffectAllow" for pre p post d
    using that by (simp add: NoneOf_def NoneOf_loop_first_allow)
  have abstains: "Evaluate (NoneOf name ps) h ctx = None" if "\<forall>q\<in>set ps. \<not> allows h ctx q"
    using that by (simp add: NoneOf_def NoneOf_loop_no_allow)
  have some: "\<exists>r. Evaluate (NoneOf name ps) h ctx = Some r \<and> Effect r = EffectDeny"
    if "\<exists>q\<in>set ps. allows h ctx q"
  proof -
    from first_allower [OF that] obtain pre p post d
      where "ps = pre @ p # post \<and> (\<forall>q\<in>set pre. \<not> allows h ctx q) \<and>
        Evaluate p h ctx = Some d \<and> Effect d = EffectAllow"
      by blast
    from blocked [OF this] show ?thesis by simp
  qed
  have only_deny: "Effect r = EffectDeny" if "Evaluate (NoneOf name ps) h ctx = Some r" for r
  proof (cases "\<exists>q\<in>set ps. allows h ctx q")
    case True
    from some [OF this] that show ?thesis by simp
  next
    case False
    then have "\<forall>q\<in>set ps. \<not> allows h ctx q" by simp
    from abstains [OF this] that show ?thesis by simp
  qed
  have iff: "(\<exists>r. Evaluate (NoneOf name ps) h ctx = Some r \<and> Effect r = EffectDeny) =
        (\<exists>q\<in>set ps. allows h ctx q)"
  proof
    assume "\<exists>r. Evaluate (NoneOf name ps) h ctx = Some r \<and> Effect r = EffectDeny"
    then show "\<exists>q\<in>set ps. allows h ctx q"
      using abstains by fastforce
  next
    assume "\<exists>q\<in>set ps. allows h ctx q"
    then show "\<exists>r. Evaluate (NoneOf name ps) h ctx = Some r \<and> Effect r = EffectDeny"
      by (rule some)
  qed
  from blocked abstains iff only_deny show ?thesis by blast
qed

text \<open>
  C5 on constant sub-policies: abstain then allow B gives a Deny that names B; deny,
  deny gives no decision.
\<close>

theorem C5_NoneOf_witness:
  "Evaluate (NoneOf ''X'' [always ''N'' 0 None, always ''B'' 0 (Some (allow_decision ''B''))])
       no_tags engineer_request =
     Some \<lparr>Effect = EffectDeny, PolicyDecision.PolicyName = ''X'',
           PolicyDecision.Reason = ''NoneOf blocked by sub-policy B: B allow''\<rparr>
   \<and> Evaluate (NoneOf ''X'' [always ''A'' 0 (Some (deny_decision ''A'')),
       always ''B'' 0 (Some (deny_decision ''B''))]) no_tags engineer_request = None"
proof -
  note claim = C5_NoneOf_denies_iff_some_sub_policy_allows
  have allow_hyp:
    "[always ''N'' 0 None, always ''B'' 0 (Some (allow_decision ''B''))] =
       [always ''N'' 0 None] @ always ''B'' 0 (Some (allow_decision ''B'')) # [] \<and>
     (\<forall>q\<in>set [always ''N'' 0 None]. \<not> allows no_tags engineer_request q) \<and>
     Evaluate (always ''B'' 0 (Some (allow_decision ''B''))) no_tags engineer_request =
       Some (allow_decision ''B'') \<and>
     Effect (allow_decision ''B'') = EffectAllow"
    by (simp add: always_def allows_def allow_decision_def)
  have deny_hyp:
    "\<forall>q\<in>set [always ''A'' 0 (Some (deny_decision ''A'')),
       always ''B'' 0 (Some (deny_decision ''B''))]. \<not> allows no_tags engineer_request q"
    by (simp add: always_def allows_def deny_decision_def)
  from claim [THEN conjunct1, rule_format, OF allow_hyp]
  have a: "Evaluate (NoneOf ''X'' [always ''N'' 0 None,
       always ''B'' 0 (Some (allow_decision ''B''))]) no_tags engineer_request =
     Some \<lparr>Effect = EffectDeny, PolicyDecision.PolicyName = ''X'',
           PolicyDecision.Reason = ''NoneOf blocked by sub-policy B: B allow''\<rparr>"
    by (simp add: always_def allow_decision_def)
  from claim [THEN conjunct2, THEN conjunct1, THEN mp, OF deny_hyp]
  have b: "Evaluate (NoneOf ''X'' [always ''A'' 0 (Some (deny_decision ''A'')),
       always ''B'' 0 (Some (deny_decision ''B''))]) no_tags engineer_request = None" .
  from a b show ?thesis by blast
qed

section \<open>Claims about the compliance checker\<close>

lemma ComplianceChecker_Evaluate_loop_collects:
  "ComplianceChecker_Evaluate_loop h r rs \<lparr>ResourceID = i, Violations = Some vs\<rparr> =
     \<lparr>ResourceID = i,
      Violations = Some (vs @ map violation (filter (\<lambda>rule. \<not> Check rule h r) rs))\<rparr>"
  by (induction rs arbitrary: vs) (simp_all add: append_slice_def)

lemma AddRuleSet_loop_appends:
  "AddRuleSet_loop c rs xs =
     (c\<lparr>rules := rules c @
        map (\<lambda>rule.
          \<lparr>ComplianceRule.Name = RuleSet.Name rs @ ''/'' @ ComplianceRule.Name rule,
           ComplianceRule.Version = ComplianceRule.Version rule,
           ComplianceRule.Author = ComplianceRule.Author rule,
           ComplianceRule.Description = ComplianceRule.Description rule,
           Check = Check rule\<rparr>) xs\<rparr>, rs)"
  by (induction xs arbitrary: c) simp_all

text \<open>
  C6. \<open>ComplianceChecker.Evaluate\<close> returns the report whose resource identifier is the
  identifier of the resource and whose violations are, in registration order, the
  strings "[<RuleName>] <RuleDescription>" of exactly the registered rules whose check
  is false on the resource: every rule is consulted, a failing rule does not stop the
  scan. \<open>Compliant\<close> of a report is true exactly when its violation sequence is empty,
  so the returned report is compliant exactly when no registered rule fails.
\<close>

theorem C6_checker_reports_every_failed_rule:
  "ComplianceChecker_Evaluate h c r =
     \<lparr>ResourceID = Resource.ID r,
      Violations = Some
        (map (\<lambda>rule. ''['' @ ComplianceRule.Name rule @ ''] '' @
                      ComplianceRule.Description rule)
           (filter (\<lambda>rule. \<not> Check rule h r) (rules c)))\<rparr>
   \<and> Compliant rep = (elems (Violations rep) = [])
   \<and> Compliant (ComplianceChecker_Evaluate h c r) =
       (filter (\<lambda>rule. \<not> Check rule h r) (rules c) = [])"
proof -
  have report: "ComplianceChecker_Evaluate h c r =
     \<lparr>ResourceID = Resource.ID r,
      Violations = Some
        (map (\<lambda>rule. ''['' @ ComplianceRule.Name rule @ ''] '' @
                      ComplianceRule.Description rule)
           (filter (\<lambda>rule. \<not> Check rule h r) (rules c)))\<rparr>"
    by (simp add: ComplianceChecker_Evaluate_def ComplianceChecker_Evaluate_loop_collects
        violation_def [abs_def])
  have compliant: "Compliant rep = (elems (Violations rep) = [])" for rep
    by (simp add: Compliant_def len_def)
  from report compliant show ?thesis by simp
qed

text \<open>
  The report of the default checker on a database classified public without tags: the
  first and the third rule fail, both are reported, in this order.
\<close>

lemma DefaultComplianceChecker_rogue_database:
  "ComplianceChecker_Evaluate no_tags DefaultComplianceChecker
     \<lparr>Resource.ID = ''db-legacy'', Type = ''database'', Classification = ''public'',
      Tags = Some 0\<rparr> =
     \<lparr>ResourceID = ''db-legacy'',
      Violations = Some [
        ''[RequiresOwnerTag] Resource must have an 'owner' tag.'',
        ''[DatabasesMustBeRestricted] Database resources must be classified as 'restricted' or 'confidential'.'']\<rparr>"
  by (simp add: ComplianceChecker_Evaluate_def DefaultComplianceChecker_def AddRule_def
      empty_checker_def append_slice_def violation_def lookup_tag_def no_tags_def)

text \<open>
  C7. \<open>AddRuleSet\<close> appends to the checker's rules, for each rule of the set in order, a
  rule named "<SetName>/<RuleName>" with the version, author, description and check of
  the original, and leaves the caller's rule set as it was. For \<open>SOC2RuleSet\<close>: the
  checker gains SOC2/RequiresOwnerTag and SOC2/NoUnclassifiedResources, while the rule
  set used for merging and a new \<open>SOC2RuleSet\<close> value carry the unprefixed names.
\<close>

theorem C7_AddRuleSet_prefixes_copies_and_keeps_source:
  "AddRuleSet c rs =
     (c\<lparr>rules := rules c @
        map (\<lambda>rule.
          \<lparr>ComplianceRule.Name = RuleSet.Name rs @ ''/'' @ ComplianceRule.Name rule,
           ComplianceRule.Version = ComplianceRule.Version rule,
           ComplianceRule.Author = ComplianceRule.Author rule,
           ComplianceRule.Description = ComplianceRule.Description rule,
           Check = Check rule\<rparr>) (Rules rs)\<rparr>, rs)
   \<and> map ComplianceRule.Name (rules (fst (AddRuleSet c SOC2RuleSet))) =
       map ComplianceRule.Name (rules c) @
         [''SOC2/RequiresOwnerTag'', ''SOC2/NoUnclassifiedResources'']
   \<and> map ComplianceRule.Name (Rules (snd (AddRuleSet c SOC2RuleSet))) =
       [''RequiresOwnerTag'', ''NoUnclassifiedResources'']
   \<and> map ComplianceRule.Name (Rules SOC2RuleSet) =
       [''RequiresOwnerTag'', ''NoUnclassifiedResources'']"
  by (simp add: AddRuleSet_def AddRuleSet_loop_appends SOC2RuleSet_def)

section \<open>Claims about the serialisation\<close>

text \<open>
  C8. The rendering of an \<open>EvaluationResult\<close> is an object with the members decision and
  trace; trace is an object whose members are principal (the principal's identifier),
  resource (the resource's identifier), action (the verb), environment and steps, in
  this order and with no member context; steps is an array with one element per trace
  row, the empty array for a nil as for an empty step sequence. The rendering of a
  \<open>ComplianceReport\<close> is the object with resource_id, compliant (true exactly when the
  violation sequence is empty, computed from it) and violations, an array of strings
  that is empty for a nil as for an empty sequence.
\<close>

theorem C8_JSON_shapes:
  "keys (EvaluationResult_MarshalJSON r) = [''decision'', ''trace'']
   \<and> member (EvaluationResult_MarshalJSON r) ''trace'' =
       Some (JObject [
         (''principal'', JString (Principal.ID (Principal (Context (Trace r))))),
         (''resource'', JString (Resource.ID (Resource (Context (Trace r))))),
         (''action'', JString (Verb (Action (Context (Trace r))))),
         (''environment'', JString (Environment (Context (Trace r)))),
         (''steps'', JArray (map Marshal_PolicyStep (elems (Steps (Trace r)))))])
   \<and> member (EvaluationResult_MarshalJSON
         \<lparr>Decision = d, Trace = \<lparr>Context = c, Steps = None\<rparr>\<rparr>) ''trace'' =
       member (EvaluationResult_MarshalJSON
         \<lparr>Decision = d, Trace = \<lparr>Context = c, Steps = Some []\<rparr>\<rparr>) ''trace''
   \<and> ComplianceReport_MarshalJSON rep =
       JObject [
         (''resource_id'', JString (ResourceID rep)),
         (''compliant'', JBool (elems (Violations rep) = [])),
         (''violations'', JArray (map JString (elems (Violations rep))))]"
proof -
  have result_keys: "keys (EvaluationResult_MarshalJSON r) = [''decision'', ''trace'']"
    by (simp add: EvaluationResult_MarshalJSON_def Let_def)
  have trace: "member (EvaluationResult_MarshalJSON r) ''trace'' =
       Some (JObject [
         (''principal'', JString (Principal.ID (Principal (Context (Trace r))))),
         (''resource'', JString (Resource.ID (Resource (Context (Trace r))))),
         (''action'', JString (Verb (Action (Context (Trace r))))),
         (''environment'', JString (Environment (Context (Trace r)))),
         (''steps'', JArray (map Marshal_PolicyStep (elems (Steps (Trace r)))))])" for r
    by (cases "Steps (Trace r)")
      (simp_all add: EvaluationResult_MarshalJSON_def Let_def Marshal_slice_def)
  have nil_steps: "member (EvaluationResult_MarshalJSON
         \<lparr>Decision = d, Trace = \<lparr>Context = c, Steps = None\<rparr>\<rparr>) ''trace'' =
       member (EvaluationResult_MarshalJSON
         \<lparr>Decision = d, Trace = \<lparr>Context = c, Steps = Some []\<rparr>\<rparr>) ''trace''"
    by (simp add: trace)
  have report: "ComplianceReport_MarshalJSON rep =
       JObject [
         (''resource_id'', JString (ResourceID rep)),
         (''compliant'', JBool (elems (Violations rep) = [])),
         (''violations'', JArray (map JString (elems (Violations rep))))]"
    by (cases "Violations rep")
      (simp_all add: ComplianceReport_MarshalJSON_def Let_def Marshal_slice_def
        Compliant_def len_def)
  from result_keys trace [of r] nil_steps report show ?thesis by blast
qed

section \<open>The captured context and the caller's tag map\<close>

lemma trace_shares_tag_map:
  assumes "Tags (Resource ctx) = Some a"
  shows "set_tag h ctx k v = Some (h(a := (h a)(k \<mapsto> v)))"
    and "lookup_tag (h(a := (h a)(k \<mapsto> v)))
           (Tags (Resource (Context (Trace (PolicyEngine_Evaluate h e ctx))))) k = Some v"
  using assms by (simp_all add: set_tag_def lookup_tag_def Evaluate_Context)

text \<open>
  C9, evaluated at a failing input. The default engine evaluates the engineer's request,
  whose resource has an allocated, empty tag map. The context captured in the returned
  trace is the request, tag-map reference included. Before the caller touches its
  request, the captured context shows no owner tag; after the caller has executed
  \<open>ctx.Resource.Tags["owner"] = "mallory"\<close> on its own request, the captured context of
  the trace returned earlier shows the owner mallory.
\<close>

theorem C9_captured_context_follows_later_tag_write:
  "Context (Trace (PolicyEngine_Evaluate no_tags DefaultPolicyEngine engineer_request)) =
     engineer_request
   \<and> lookup_tag no_tags
       (Tags (Resource (Context (Trace
         (PolicyEngine_Evaluate no_tags DefaultPolicyEngine engineer_request))))) ''owner'' = None
   \<and> (case set_tag no_tags engineer_request ''owner'' ''mallory'' of
        None \<Rightarrow> False
      | Some h' \<Rightarrow>
          lookup_tag h'
            (Tags (Resource (Context (Trace
              (PolicyEngine_Evaluate no_tags DefaultPolicyEngine engineer_request)))))
            ''owner'' = Some ''mallory'')"
  by (simp add: Evaluate_Context set_tag_def lookup_tag_def engineer_request_def no_tags_def)

end
